theory Spec2Isabelle
  imports Main "HOL-Library.Word"
begin

section \<open>Extension property resolution of pgrds (src/utils.c)\<close>

text \<open>
  The file src/utils.c has three functions: the static
  \<^verbatim>\<open>parse_default_version_in_control_file\<close>, and the exported
  \<^verbatim>\<open>get_extension_current_version\<close> and \<^verbatim>\<open>fill_in_extension_properties\<close>.
  A nullable \<^verbatim>\<open>char *\<close> is a \<open>string option\<close> (\<open>None\<close> is \<^verbatim>\<open>NULL\<close>), the
  out parameters \<^verbatim>\<open>char **\<close> are passed in and returned, and \<^verbatim>\<open>ereport(ERROR, ...)\<close>,
  which does not return to its caller, is the left summand of the result.
\<close>

subsection \<open>Errors\<close>

text \<open>
  An error report carries the SQLSTATE class given to \<^verbatim>\<open>errcode\<close> and the text given
  to \<^verbatim>\<open>errmsg\<close>. \<open>Errcode_for_file_access\<close> stands for the code that
  \<^verbatim>\<open>errcode_for_file_access()\<close> derives from \<^verbatim>\<open>errno\<close>; \<^verbatim>\<open>elog(ERROR, ...)\<close> reports
  \<open>ERRCODE_INTERNAL_ERROR\<close>; \<open>ERRCODE_SYNTAX_ERROR\<close> is what the server's parser of
  configuration files reports. The \<^verbatim>\<open>%m\<close> of a message is left as it is written.
\<close>

datatype errcode =
    Errcode_for_file_access
  | ERRCODE_UNDEFINED_OBJECT
  | ERRCODE_UNDEFINED_SCHEMA
  | ERRCODE_INTERNAL_ERROR
  | ERRCODE_SYNTAX_ERROR

datatype ErrorData = Ereport errcode string

definition dquote :: string where
  "dquote = [CHR 0x22]"

subsection \<open>Data read by the functions\<close>

text \<open>An entry of the list built by \<^verbatim>\<open>ParseConfigFp\<close>: only \<^verbatim>\<open>name\<close> and
  \<^verbatim>\<open>value\<close> are read by this file (the field \<^verbatim>\<open>value\<close> is called \<open>val\<close> here).\<close>

record ConfigVariable =
  name :: string
  val :: string

text \<open>A statement option. \<^verbatim>\<open>arg\<close> is a nullable node pointer; the node type is a
  parameter, read through the macro \<^verbatim>\<open>strVal\<close>.\<close>

record 'node DefElem =
  defname :: string
  arg :: "'node option"

type_synonym Oid = "32 word"

text \<open>A row of the catalog \<^verbatim>\<open>pg_extension\<close>: the two attributes this file touches.
  \<^verbatim>\<open>heap_getattr\<close> may report the version attribute as null.\<close>

record FormData_pg_extension =
  extname :: string
  extversion :: "string option"

text \<open>
  What the functions take from the server, none of it defined in this repository:
  the macro \<^verbatim>\<open>strVal\<close>, the result of \<^verbatim>\<open>get_share_path(my_exec_path, ...)\<close>,
  \<^verbatim>\<open>AllocateFile(filename, "r")\<close> (\<open>None\<close> is \<^verbatim>\<open>NULL\<close>),
  \<^verbatim>\<open>ParseConfigFp(file, filename, 0, ERROR, &head, &tail)\<close> (an error thrown at level
  ERROR, or the list from \<^verbatim>\<open>head\<close>), \<^verbatim>\<open>fetch_search_path\<close> and
  \<^verbatim>\<open>get_namespace_name\<close>.
\<close>

record ('node, 'file) backend =
  strVal :: "'node \<Rightarrow> string"
  share_path :: string
  AllocateFile :: "string \<Rightarrow> 'file option"
  ParseConfigFp :: "'file \<Rightarrow> string \<Rightarrow> ErrorData + ConfigVariable list"
  fetch_search_path :: "bool \<Rightarrow> Oid list"
  get_namespace_name :: "Oid \<Rightarrow> string option"

subsection \<open>parse_default_version_in_control_file\<close>

definition MAXPGPATH :: nat where
  "MAXPGPATH = 1024"

text \<open>\<^verbatim>\<open>snprintf(filename, MAXPGPATH, "%s/extension/%s.control", sharepath, extname)\<close>
  keeps at most \<open>MAXPGPATH - 1\<close> characters.\<close>

definition control_filename :: "('node, 'file) backend \<Rightarrow> string \<Rightarrow> string" where
  "control_filename be extname_arg =
     take (MAXPGPATH - 1) (share_path be @ ''/extension/'' @ extname_arg @ ''.control'')"

text \<open>The loop \<^verbatim>\<open>for (item = head; item != NULL; item = item->next)\<close> over the parsed
  entries, on the pair \<open>(*version, *schema)\<close>.\<close>

fun control_items_loop ::
  "ConfigVariable list \<Rightarrow> string option \<times> string option \<Rightarrow> string option \<times> string option"
where
  "control_items_loop [] (version, schema) = (version, schema)"
| "control_items_loop (item # rest) (version, schema) =
     (if version = None \<and> name item = ''default_version''
      then control_items_loop rest (Some (val item), schema)
      else if schema = None \<and> name item = ''schema''
      then control_items_loop rest (version, Some (val item))
      else control_items_loop rest (version, schema))"

definition parse_default_version_in_control_file ::
  "('node, 'file) backend \<Rightarrow> string \<Rightarrow> string option \<times> string option
     \<Rightarrow> ErrorData + (string option \<times> string option)"
where
  "parse_default_version_in_control_file be extname_arg vs =
     (let filename = control_filename be extname_arg in
      case AllocateFile be filename of
        None \<Rightarrow>
          Inl (Ereport Errcode_for_file_access
                 (''could not open extension control file '' @ dquote @ filename @ dquote
                    @ '': %m''))
      | Some file \<Rightarrow>
          (case ParseConfigFp be file filename of
             Inl e \<Rightarrow> Inl e
           | Inr head \<Rightarrow> Inr (control_items_loop head vs)))"

subsection \<open>get_extension_current_version\<close>

text \<open>The index scan on \<^verbatim>\<open>pg_extension\<close> with the key \<open>extname = name\<close>:
  \<^verbatim>\<open>systable_getnext\<close> gives the first visible row that matches, or an invalid tuple.\<close>

definition systable_getnext ::
  "FormData_pg_extension list \<Rightarrow> string \<Rightarrow> FormData_pg_extension option" where
  "systable_getnext extRel key = find (\<lambda>tup. extname tup = key) extRel"

definition get_extension_current_version ::
  "FormData_pg_extension list \<Rightarrow> string \<Rightarrow> ErrorData + string" where
  "get_extension_current_version extRel extname_arg =
     (case systable_getnext extRel extname_arg of
        None \<Rightarrow>
          Inl (Ereport ERRCODE_UNDEFINED_OBJECT
                 (''extension '' @ dquote @ extname_arg @ dquote @ '' does not exist''))
      | Some extTup \<Rightarrow>
          (case extversion extTup of
             None \<Rightarrow> Inl (Ereport ERRCODE_INTERNAL_ERROR ''extversion is null'')
           | Some oldVersionName \<Rightarrow> Inr oldVersionName))"

subsection \<open>fill_in_extension_properties\<close>

text \<open>The loop \<^verbatim>\<open>foreach(lc, options)\<close> on the three pointers
  \<open>(d_schema, d_new_version, d_old_version)\<close>: each recognised entry overwrites its
  pointer, any other entry is passed over.\<close>

fun foreach_options ::
  "'node DefElem list
     \<Rightarrow> 'node DefElem option \<times> 'node DefElem option \<times> 'node DefElem option
     \<Rightarrow> 'node DefElem option \<times> 'node DefElem option \<times> 'node DefElem option"
where
  "foreach_options [] (d_schema, d_new_version, d_old_version) =
     (d_schema, d_new_version, d_old_version)"
| "foreach_options (defel # rest) (d_schema, d_new_version, d_old_version) =
     (if defname defel = ''schema''
      then foreach_options rest (Some defel, d_new_version, d_old_version)
      else if defname defel = ''new_version''
      then foreach_options rest (d_schema, Some defel, d_old_version)
      else if defname defel = ''old_version''
      then foreach_options rest (d_schema, d_new_version, Some defel)
      else foreach_options rest (d_schema, d_new_version, d_old_version))"

text \<open>\<^verbatim>\<open>if (d && d->arg) *out = strVal(d->arg);\<close>\<close>

definition assign_strVal ::
  "('node, 'file) backend \<Rightarrow> 'node DefElem option \<Rightarrow> string option \<Rightarrow> string option" where
  "assign_strVal be d out =
     (case d of
        None \<Rightarrow> out
      | Some defel \<Rightarrow> (case arg defel of None \<Rightarrow> out | Some node \<Rightarrow> Some (strVal be node)))"

text \<open>The block under \<^verbatim>\<open>if (*schema == NULL)\<close>: the first entry of the search path
  (\<^verbatim>\<open>linitial_oid\<close>), named by \<^verbatim>\<open>get_namespace_name\<close>.\<close>

definition default_creation_namespace :: "('node, 'file) backend \<Rightarrow> ErrorData + string" where
  "default_creation_namespace be =
     (case fetch_search_path be False of
        [] \<Rightarrow>
          Inl (Ereport ERRCODE_UNDEFINED_SCHEMA ''no schema has been selected to create in'')
      | schemaOid # _ \<Rightarrow>
          (case get_namespace_name be schemaOid of
             None \<Rightarrow>
               Inl (Ereport ERRCODE_UNDEFINED_SCHEMA
                      ''no schema has been selected to create in'')
           | Some nspname \<Rightarrow> Inr nspname))"

text \<open>The function itself, on the triple \<open>(*schema, *old_version, *new_version)\<close>.\<close>

fun fill_in_extension_properties ::
  "('node, 'file) backend \<Rightarrow> string \<Rightarrow> 'node DefElem list
     \<Rightarrow> string option \<times> string option \<times> string option
     \<Rightarrow> ErrorData + (string option \<times> string option \<times> string option)"
where
  "fill_in_extension_properties be extname_arg options (schema0, old_version0, new_version0) =
     (let (d_schema, d_new_version, d_old_version) = foreach_options options (None, None, None);
          schema1 = assign_strVal be d_schema schema0;
          old_version = assign_strVal be d_old_version old_version0;
          new_version1 = assign_strVal be d_new_version new_version0;
          parsed = (if new_version1 = None \<or> schema1 = None
                    then parse_default_version_in_control_file be extname_arg
                           (new_version1, schema1)
                    else Inr (new_version1, schema1))
      in (case parsed of
            Inl e \<Rightarrow> Inl e
          | Inr (new_version, schema2) \<Rightarrow>
              (case schema2 of
                 None \<Rightarrow>
                   (case default_creation_namespace be of
                      Inl e \<Rightarrow> Inl e
                    | Inr nspname \<Rightarrow> Inr (Some nspname, old_version, new_version))
               | Some s \<Rightarrow> Inr (Some s, old_version, new_version))))"

declare fill_in_extension_properties.simps [simp del]

subsection \<open>Vocabulary of the properties\<close>

text \<open>The entry of an option list that the loop leaves in the pointer for the key \<open>k\<close>:
  the last one with that name.\<close>

definition last_defel :: "string \<Rightarrow> 'node DefElem list \<Rightarrow> 'node DefElem option" where
  "last_defel k options = find (\<lambda>d. defname d = k) (rev options)"

text \<open>The string an option list supplies for the key \<open>k\<close>, if it supplies one:
  the entry exists and its argument is not null.\<close>

definition option_value ::
  "('node, 'file) backend \<Rightarrow> string \<Rightarrow> 'node DefElem list \<Rightarrow> string option" where
  "option_value be k options =
     (case last_defel k options of
        None \<Rightarrow> None
      | Some d \<Rightarrow> map_option (strVal be) (arg d))"

text \<open>An out parameter once the options are read.\<close>

definition after_options ::
  "('node, 'file) backend \<Rightarrow> string \<Rightarrow> 'node DefElem list \<Rightarrow> string option \<Rightarrow> string option"
where
  "after_options be k options out =
     (case option_value be k options of None \<Rightarrow> out | Some v \<Rightarrow> Some v)"

text \<open>The value of the first entry of a control file for the key \<open>k\<close>.\<close>

definition first_value :: "string \<Rightarrow> ConfigVariable list \<Rightarrow> string option" where
  "first_value k items = map_option val (find (\<lambda>item. name item = k) items)"

text \<open>The recognised option names.\<close>

definition recognised :: "'node DefElem \<Rightarrow> bool" where
  "recognised d = (defname d \<in> {''schema'', ''new_version'', ''old_version''})"


subsection \<open>An installation for the worked examples\<close>

text \<open>
  A server whose share directory is \<^verbatim>\<open>/usr/share/postgresql\<close>, with at most one control
  file, that of \<^verbatim>\<open>hstore\<close> (already split into its entries), a given search path, and
  the two schemas \<^verbatim>\<open>public\<close> (OID 2200) and \<^verbatim>\<open>app\<close> (OID 16384). Option
  arguments are string nodes.
\<close>

definition installation ::
  "ConfigVariable list option \<Rightarrow> Oid list \<Rightarrow> (string, ConfigVariable list) backend" where
  "installation control search_path =
     \<lparr> strVal = (\<lambda>node. node),
       share_path = ''/usr/share/postgresql'',
       AllocateFile =
         (\<lambda>filename. if filename = ''/usr/share/postgresql/extension/hstore.control''
                     then control else None),
       ParseConfigFp = (\<lambda>file filename. Inr file),
       fetch_search_path = (\<lambda>includeImplicit. search_path),
       get_namespace_name =
         (\<lambda>oid. if oid = 2200 then Some ''public''
                else if oid = 16384 then Some ''app'' else None) \<rparr>"

text \<open>A catalog with two installed extensions.\<close>

definition installed :: "FormData_pg_extension list" where
  "installed =
     [\<lparr>extname = ''plpgsql'', extversion = Some ''1.0''\<rparr>,
      \<lparr>extname = ''hstore'', extversion = Some ''1.4''\<rparr>]"

section \<open>The two loops\<close>

lemma find_snoc:
  "find P (xs @ [x]) =
     (case find P xs of None \<Rightarrow> (if P x then Some x else None) | Some y \<Rightarrow> Some y)"
  by (induction xs) auto

lemma last_defel_Cons:
  "last_defel k (d # options) =
     (case last_defel k options of None \<Rightarrow> (if defname d = k then Some d else None)
      | Some e \<Rightarrow> Some e)"
  by (simp add: last_defel_def find_snoc)

lemma last_defel_Nil: "last_defel k [] = None"
  by (simp add: last_defel_def)

lemma foreach_options_last:
  "foreach_options options (a, b, c) =
     (case last_defel ''schema'' options of None \<Rightarrow> a | Some d \<Rightarrow> Some d,
      case last_defel ''new_version'' options of None \<Rightarrow> b | Some d \<Rightarrow> Some d,
      case last_defel ''old_version'' options of None \<Rightarrow> c | Some d \<Rightarrow> Some d)"
  by (induction options arbitrary: a b c)
     (auto simp: last_defel_Cons last_defel_Nil split: option.splits)

lemma control_items_loop_first:
  "control_items_loop items (v, s) =
     (case v of None \<Rightarrow> first_value ''default_version'' items | Some x \<Rightarrow> Some x,
      case s of None \<Rightarrow> first_value ''schema'' items | Some x \<Rightarrow> Some x)"
  by (induction items arbitrary: v s)
     (auto simp: first_value_def split: option.splits)

lemma assign_strVal_last:
  "assign_strVal be (last_defel k options) out = after_options be k options out"
  by (simp add: assign_strVal_def after_options_def option_value_def split: option.splits)

lemma fill_in_after_options:
  "fill_in_extension_properties be extname_arg options (s0, o0, n0) =
     (case (if after_options be ''new_version'' options n0 = None
              \<or> after_options be ''schema'' options s0 = None
            then parse_default_version_in_control_file be extname_arg
                   (after_options be ''new_version'' options n0,
                    after_options be ''schema'' options s0)
            else Inr (after_options be ''new_version'' options n0,
                      after_options be ''schema'' options s0)) of
        Inl e \<Rightarrow> Inl e
      | Inr (n, s2) \<Rightarrow>
          (case s2 of
             None \<Rightarrow>
               (case default_creation_namespace be of
                  Inl e \<Rightarrow> Inl e
                | Inr nspname \<Rightarrow>
                    Inr (Some nspname, after_options be ''old_version'' options o0, n))
           | Some s \<Rightarrow> Inr (Some s, after_options be ''old_version'' options o0, n)))"
proof -
  have ident: "(case x of None \<Rightarrow> None | Some d \<Rightarrow> Some d) = x" for x :: "'a DefElem option"
    by (cases x) simp_all
  have scan: "foreach_options options (None, None, None) =
      (last_defel ''schema'' options, last_defel ''new_version'' options,
       last_defel ''old_version'' options)"
    by (simp add: foreach_options_last ident)
  show ?thesis
    unfolding fill_in_extension_properties.simps scan Let_def prod.case assign_strVal_last
    by (rule refl)
qed

lemma parse_control_opened:
  "AllocateFile be (control_filename be extname_arg) = Some file \<Longrightarrow>
   ParseConfigFp be file (control_filename be extname_arg) = Inr items \<Longrightarrow>
   parse_default_version_in_control_file be extname_arg (v, s) =
     Inr (case v of None \<Rightarrow> first_value ''default_version'' items | Some x \<Rightarrow> Some x,
          case s of None \<Rightarrow> first_value ''schema'' items | Some x \<Rightarrow> Some x)"
  by (simp add: parse_default_version_in_control_file_def control_items_loop_first)

lemma parse_control_Inr:
  "parse_default_version_in_control_file be extname_arg (v, s) = Inr (v', s') \<Longrightarrow>
   \<exists>file items. AllocateFile be (control_filename be extname_arg) = Some file
     \<and> ParseConfigFp be file (control_filename be extname_arg) = Inr items
     \<and> v' = (case v of None \<Rightarrow> first_value ''default_version'' items | Some x \<Rightarrow> Some x)
     \<and> s' = (case s of None \<Rightarrow> first_value ''schema'' items | Some x \<Rightarrow> Some x)"
  by (auto simp: parse_default_version_in_control_file_def control_items_loop_first Let_def
        split: option.splits sum.splits)

lemma first_value_split:
  "\<forall>i\<in>set pre. name i \<noteq> k \<Longrightarrow> name item = k \<Longrightarrow>
   first_value k (pre @ item # post) = Some (val item)"
  by (induction pre) (simp_all add: first_value_def)

lemma first_value_None: "first_value k items = None \<longleftrightarrow> (\<forall>i\<in>set items. name i \<noteq> k)"
  by (auto simp: first_value_def find_None_iff)

section \<open>The shape of a call\<close>

lemma default_creation_namespace_Inr:
  "default_creation_namespace be = Inr nspname \<longleftrightarrow>
     (\<exists>oid rest. fetch_search_path be False = oid # rest
        \<and> get_namespace_name be oid = Some nspname)"
  by (auto simp: default_creation_namespace_def split: list.splits option.splits)

lemma default_creation_namespace_Inl:
  "default_creation_namespace be = Inl e \<longleftrightarrow>
     e = Ereport ERRCODE_UNDEFINED_SCHEMA ''no schema has been selected to create in''
     \<and> (fetch_search_path be False = []
          \<or> (\<exists>oid rest. fetch_search_path be False = oid # rest
                \<and> get_namespace_name be oid = None))"
  by (auto simp: default_creation_namespace_def split: list.splits option.splits)

text \<open>What a successful call went through, by the state of the out parameters after the
  options.\<close>

lemma fill_in_Inr_cases:
  assumes "fill_in_extension_properties be extname_arg options (s0, o0, n0) = Inr (s, ov, n)"
  shows "ov = after_options be ''old_version'' options o0"
    and "s \<noteq> None"
    and "after_options be ''schema'' options s0 \<noteq> None \<Longrightarrow>
           s = after_options be ''schema'' options s0"
    and "after_options be ''new_version'' options n0 \<noteq> None \<Longrightarrow>
           n = after_options be ''new_version'' options n0"
    and "after_options be ''new_version'' options n0 = None
           \<or> after_options be ''schema'' options s0 = None \<Longrightarrow>
         \<exists>file items. AllocateFile be (control_filename be extname_arg) = Some file
           \<and> ParseConfigFp be file (control_filename be extname_arg) = Inr items
           \<and> n = (case after_options be ''new_version'' options n0 of
                    None \<Rightarrow> first_value ''default_version'' items | Some x \<Rightarrow> Some x)
           \<and> (case after_options be ''schema'' options s0 of
                 None \<Rightarrow> (case first_value ''schema'' items of
                            None \<Rightarrow> default_creation_namespace be = Inr (the s)
                          | Some x \<Rightarrow> s = Some x)
               | Some x \<Rightarrow> s = Some x)"
proof -
  let ?n1 = "after_options be ''new_version'' options n0"
  let ?s1 = "after_options be ''schema'' options s0"
  let ?p = "if ?n1 = None \<or> ?s1 = None
            then parse_default_version_in_control_file be extname_arg (?n1, ?s1)
            else Inr (?n1, ?s1)"
  from assms obtain n' s2 where p: "?p = Inr (n', s2)"
    and rest: "(case s2 of
             None \<Rightarrow>
               (case default_creation_namespace be of
                  Inl e \<Rightarrow> Inl e
                | Inr nspname \<Rightarrow>
                    Inr (Some nspname, after_options be ''old_version'' options o0, n'))
           | Some x \<Rightarrow> Inr (Some x, after_options be ''old_version'' options o0, n'))
           = Inr (s, ov, n)"
    by (simp add: fill_in_after_options split: sum.splits prod.splits)
  from rest have n: "n = n'" and ov: "ov = after_options be ''old_version'' options o0"
    and s: "(case s2 of None \<Rightarrow> default_creation_namespace be = Inr (the s) \<and> s \<noteq> None
             | Some x \<Rightarrow> s = Some x)"
    by (auto split: option.splits sum.splits)
  show "ov = after_options be ''old_version'' options o0" by (rule ov)
  show "s \<noteq> None" using s by (auto split: option.splits)
  have keep_s: "s2 = ?s1" if "?s1 \<noteq> None"
    using p that
    by (auto simp: parse_default_version_in_control_file_def control_items_loop_first Let_def
          split: if_splits option.splits sum.splits)
  have keep_n: "n' = ?n1" if "?n1 \<noteq> None"
    using p that
    by (auto simp: parse_default_version_in_control_file_def control_items_loop_first Let_def
          split: if_splits option.splits sum.splits)
  show "s = ?s1" if "?s1 \<noteq> None"
    using keep_s [OF that] s that by (auto split: option.splits)
  show "n = ?n1" if "?n1 \<noteq> None"
    using keep_n [OF that] n by simp
  show "\<exists>file items. AllocateFile be (control_filename be extname_arg) = Some file
           \<and> ParseConfigFp be file (control_filename be extname_arg) = Inr items
           \<and> n = (case ?n1 of
                    None \<Rightarrow> first_value ''default_version'' items | Some x \<Rightarrow> Some x)
           \<and> (case ?s1 of
                 None \<Rightarrow> (case first_value ''schema'' items of
                            None \<Rightarrow> default_creation_namespace be = Inr (the s)
                          | Some x \<Rightarrow> s = Some x)
               | Some x \<Rightarrow> s = Some x)"
    if "?n1 = None \<or> ?s1 = None"
  proof -
    from p that
    have "parse_default_version_in_control_file be extname_arg (?n1, ?s1) = Inr (n', s2)"
      by (simp split: if_splits)
    from parse_control_Inr [OF this] obtain fl items where
      f: "AllocateFile be (control_filename be extname_arg) = Some fl"
      and i: "ParseConfigFp be fl (control_filename be extname_arg) = Inr items"
      and n': "n' = (case ?n1 of None \<Rightarrow> first_value ''default_version'' items
                     | Some x \<Rightarrow> Some x)"
      and s2: "s2 = (case ?s1 of None \<Rightarrow> first_value ''schema'' items | Some x \<Rightarrow> Some x)"
      by blast
    from s s2 have "(case ?s1 of
                 None \<Rightarrow> (case first_value ''schema'' items of
                            None \<Rightarrow> default_creation_namespace be = Inr (the s)
                          | Some x \<Rightarrow> s = Some x)
               | Some x \<Rightarrow> s = Some x)"
      by (auto split: option.splits)
    with f i n n' show ?thesis by blast
  qed
qed


lemma fill_in_no_schema_anywhere:
  assumes opened: "AllocateFile be (control_filename be extname_arg) = Some file"
    and parsed: "ParseConfigFp be file (control_filename be extname_arg) = Inr items"
    and undeclared: "\<forall>i\<in>set items. name i \<noteq> ''schema''"
    and omitted: "option_value be ''schema'' options = None"
  shows "fill_in_extension_properties be extname_arg options (None, o0, n0) =
     (case default_creation_namespace be of
        Inl e \<Rightarrow> Inl e
      | Inr nspname \<Rightarrow>
          Inr (Some nspname, after_options be ''old_version'' options o0,
               case after_options be ''new_version'' options n0 of
                 None \<Rightarrow> first_value ''default_version'' items
               | Some x \<Rightarrow> Some x))"
proof -
  have s1: "after_options be ''schema'' options None = None"
    using omitted by (simp add: after_options_def)
  have fv: "first_value ''schema'' items = None"
    using undeclared by (simp add: first_value_None)
  show ?thesis
    by (simp add: fill_in_after_options s1 parse_control_opened [OF opened parsed] fv)
qed


lemma foreach_options_filter_recognised:
  "foreach_options (filter recognised options) acc = foreach_options options acc"
proof (induction options arbitrary: acc)
  case Nil
  show ?case by simp
next
  case (Cons d options)
  obtain a b c where acc: "acc = (a, b, c)" by (cases acc) auto
  from Cons.IH show ?case by (simp add: acc recognised_def)
qed

lemma last_defel_filter:
  "last_defel k' (filter (\<lambda>e. defname e \<noteq> k) options) =
     (if k' = k then None else last_defel k' options)"
  by (induction options) (auto simp: last_defel_Cons last_defel_Nil split: option.splits)

lemma after_options_filter:
  "after_options be k' (filter (\<lambda>e. defname e \<noteq> k) options) out =
     (if k' = k then out else after_options be k' options out)"
  by (simp add: after_options_def option_value_def last_defel_filter)

text \<open>The definitions to unfold when a call is run on the example installation.\<close>

lemmas run_installation =
  fill_in_extension_properties.simps assign_strVal_def
  parse_default_version_in_control_file_def control_filename_def installation_def
  MAXPGPATH_def default_creation_namespace_def

section \<open>What a successful call returns\<close>

text \<open>
  A control file without a \<^verbatim>\<open>default_version\<close> entry and a statement without a version:
  the call succeeds, takes the schema from the search path, and leaves
  \<^verbatim>\<open>*new_version\<close> null.
\<close>

theorem success_without_new_version:
  "fill_in_extension_properties
     (installation (Some [\<lparr>name = ''comment'', val = ''key/value pairs''\<rparr>,
                          \<lparr>name = ''relocatable'', val = ''true''\<rparr>]) [2200])
     ''hstore'' [] (None, None, None)
   = Inr (Some ''public'', None, None)"
  by (simp add: run_installation)

text \<open>
  Claim C1, as amended. On every successful return \<^verbatim>\<open>*schema\<close> is set (not null).
  \<^verbatim>\<open>*new_version\<close> is the value that the options (or the caller) gave when there is
  one; otherwise the control file was opened and parsed, and \<^verbatim>\<open>*new_version\<close> is the
  value of its first \<^verbatim>\<open>default_version\<close> entry, null when it has none.
\<close>

theorem resolved_tuple_on_success:
  assumes "fill_in_extension_properties be extname_arg options (s0, o0, n0) = Inr (s, ov, n)"
  shows "s \<noteq> None
     \<and> (after_options be ''new_version'' options n0 \<noteq> None
          \<longrightarrow> n = after_options be ''new_version'' options n0)
     \<and> (after_options be ''new_version'' options n0 = None \<longrightarrow>
          (\<exists>file items. AllocateFile be (control_filename be extname_arg) = Some file
             \<and> ParseConfigFp be file (control_filename be extname_arg) = Inr items
             \<and> n = first_value ''default_version'' items))"
proof (intro conjI impI)
  show "s \<noteq> None" by (rule fill_in_Inr_cases(2) [OF assms])
next
  assume "after_options be ''new_version'' options n0 \<noteq> None"
  then show "n = after_options be ''new_version'' options n0"
    by (rule fill_in_Inr_cases(4) [OF assms])
next
  assume unset: "after_options be ''new_version'' options n0 = None"
  then have "after_options be ''new_version'' options n0 = None
      \<or> after_options be ''schema'' options s0 = None" by simp
  from fill_in_Inr_cases(5) [OF assms this] unset
  show "\<exists>file items. AllocateFile be (control_filename be extname_arg) = Some file
             \<and> ParseConfigFp be file (control_filename be extname_arg) = Inr items
             \<and> n = first_value ''default_version'' items"
    by auto
qed

theorem resolved_tuple_on_success_witness:
  "fill_in_extension_properties
     (installation (Some [\<lparr>name = ''default_version'', val = ''1.4''\<rparr>,
                          \<lparr>name = ''relocatable'', val = ''true''\<rparr>]) [2200, 16384])
     ''hstore'' [] (None, None, None)
   = Inr (Some ''public'', None, Some ''1.4'')
   \<and> Some ''public'' \<noteq> (None :: string option)"
proof -
  have run: "fill_in_extension_properties
     (installation (Some [\<lparr>name = ''default_version'', val = ''1.4''\<rparr>,
                          \<lparr>name = ''relocatable'', val = ''true''\<rparr>]) [2200, 16384])
     ''hstore'' [] (None, None, None)
   = Inr (Some ''public'', None, Some ''1.4'')"
    by (simp add: run_installation)
  from resolved_tuple_on_success [OF run] have "Some ''public'' \<noteq> (None :: string option)"
    by (rule conjunct1)
  with run show ?thesis by (rule conjI)
qed

section \<open>A control file that cannot be opened\<close>

text \<open>
  With both \<^verbatim>\<open>schema\<close> and \<^verbatim>\<open>new_version\<close> given in the statement, the control
  file is not opened: the call succeeds although the file does not exist.
\<close>

theorem missing_control_file_not_needed:
  "AllocateFile (installation None [2200])
     (control_filename (installation None [2200]) ''hstore'') = None
   \<and> fill_in_extension_properties (installation None [2200]) ''hstore''
       [\<lparr>defname = ''schema'', arg = Some ''public''\<rparr>,
        \<lparr>defname = ''new_version'', arg = Some ''1.4''\<rparr>] (None, None, None)
     = Inr (Some ''public'', None, Some ''1.4'')"
  by (simp add: run_installation)

text \<open>
  Claim C2, as amended. When the control file cannot be opened: if \<^verbatim>\<open>*new_version\<close>
  or \<^verbatim>\<open>*schema\<close> is still null once the options are read, the call fails with the
  file-access error "could not open extension control file" and returns no tuple; if
  both are set by then, the file is not consulted and the call returns them.
\<close>

theorem missing_control_file_fails:
  assumes missing: "AllocateFile be (control_filename be extname_arg) = None"
  shows "(after_options be ''new_version'' options n0 = None
            \<or> after_options be ''schema'' options s0 = None \<longrightarrow>
          fill_in_extension_properties be extname_arg options (s0, o0, n0) =
            Inl (Ereport Errcode_for_file_access
                   (''could not open extension control file '' @ dquote
                      @ control_filename be extname_arg @ dquote @ '': %m'')))
       \<and> (after_options be ''new_version'' options n0 \<noteq> None
            \<and> after_options be ''schema'' options s0 \<noteq> None \<longrightarrow>
          fill_in_extension_properties be extname_arg options (s0, o0, n0) =
            Inr (after_options be ''schema'' options s0,
                 after_options be ''old_version'' options o0,
                 after_options be ''new_version'' options n0))"
proof (intro conjI impI)
  assume "after_options be ''new_version'' options n0 = None
            \<or> after_options be ''schema'' options s0 = None"
  with missing
  show "fill_in_extension_properties be extname_arg options (s0, o0, n0) =
            Inl (Ereport Errcode_for_file_access
                   (''could not open extension control file '' @ dquote
                      @ control_filename be extname_arg @ dquote @ '': %m''))"
    by (simp add: fill_in_after_options parse_default_version_in_control_file_def)
next
  assume "after_options be ''new_version'' options n0 \<noteq> None
            \<and> after_options be ''schema'' options s0 \<noteq> None"
  then obtain v w where "after_options be ''new_version'' options n0 = Some v"
    and "after_options be ''schema'' options s0 = Some w"
    by auto
  then show "fill_in_extension_properties be extname_arg options (s0, o0, n0) =
            Inr (after_options be ''schema'' options s0,
                 after_options be ''old_version'' options o0,
                 after_options be ''new_version'' options n0)"
    by (simp add: fill_in_after_options)
qed

theorem missing_control_file_fails_witness:
  "fill_in_extension_properties (installation None [2200]) ''hstore''
       [\<lparr>defname = ''schema'', arg = Some ''public''\<rparr>] (None, None, None)
     = Inl (Ereport Errcode_for_file_access
            (''could not open extension control file '' @ dquote
               @ ''/usr/share/postgresql/extension/hstore.control'' @ dquote @ '': %m''))"
proof -
  have missing: "AllocateFile (installation None [2200])
     (control_filename (installation None [2200]) ''hstore'') = None"
    by (simp add: installation_def)
  have unset: "after_options (installation None [2200]) ''new_version''
        [\<lparr>defname = ''schema'', arg = Some ''public''\<rparr>] None = None
      \<or> after_options (installation None [2200]) ''schema''
        [\<lparr>defname = ''schema'', arg = Some ''public''\<rparr>] None = None"
    by (simp add: after_options_def option_value_def last_defel_def)
  have path: "control_filename (installation None [2200]) ''hstore''
      = ''/usr/share/postgresql/extension/hstore.control''"
    by (simp add: control_filename_def installation_def MAXPGPATH_def)
  from missing_control_file_fails [OF missing,
      where options = "[\<lparr>defname = ''schema'', arg = Some ''public''\<rparr>]"
        and ?n0.0 = None and ?s0.0 = None and ?o0.0 = None] unset path
  show ?thesis by simp
qed

section \<open>Precedence of the options\<close>

text \<open>
  Claim C3. When the option list supplies \<^verbatim>\<open>schema\<close> with a value, the resolved
  schema is that value, and when it supplies \<^verbatim>\<open>new_version\<close> with a value, the
  resolved version is that value, whatever the backend (and so whatever the control
  file declares). The value an option list supplies for a key is that of the last
  entry with this name, the one the loop keeps.
\<close>

theorem options_take_precedence:
  assumes "fill_in_extension_properties be extname_arg options (s0, o0, n0) = Inr (s, ov, n)"
  shows "(\<forall>v. option_value be ''schema'' options = Some v \<longrightarrow> s = Some v)
       \<and> (\<forall>v. option_value be ''new_version'' options = Some v \<longrightarrow> n = Some v)"
proof (intro conjI allI impI)
  fix v assume "option_value be ''schema'' options = Some v"
  then have "after_options be ''schema'' options s0 = Some v"
    by (simp add: after_options_def)
  with fill_in_Inr_cases(3) [OF assms] show "s = Some v" by simp
next
  fix v assume "option_value be ''new_version'' options = Some v"
  then have "after_options be ''new_version'' options n0 = Some v"
    by (simp add: after_options_def)
  with fill_in_Inr_cases(4) [OF assms] show "n = Some v" by simp
qed

theorem options_take_precedence_witness:
  "fill_in_extension_properties
     (installation (Some [\<lparr>name = ''default_version'', val = ''1.4''\<rparr>,
                          \<lparr>name = ''schema'', val = ''public''\<rparr>]) [2200])
     ''hstore''
     [\<lparr>defname = ''schema'', arg = Some ''app''\<rparr>,
      \<lparr>defname = ''new_version'', arg = Some ''1.3''\<rparr>] (None, None, None)
   = Inr (Some ''app'', None, Some ''1.3'')
   \<and> fill_in_extension_properties
     (installation (Some [\<lparr>name = ''default_version'', val = ''1.4''\<rparr>,
                          \<lparr>name = ''schema'', val = ''public''\<rparr>]) [2200])
     ''hstore''
     [\<lparr>defname = ''schema'', arg = Some ''app''\<rparr>] (None, None, None)
   = Inr (Some ''app'', None, Some ''1.4'')"
proof -
  let ?be = "installation (Some [\<lparr>name = ''default_version'', val = ''1.4''\<rparr>,
                                 \<lparr>name = ''schema'', val = ''public''\<rparr>]) [2200]"
  let ?both = "[\<lparr>defname = ''schema'', arg = Some ''app''\<rparr>,
                \<lparr>defname = ''new_version'', arg = Some ''1.3''\<rparr>]"
  let ?one = "[\<lparr>defname = ''schema'', arg = Some ''app''\<rparr>]"
  obtain s ov n where both:
    "fill_in_extension_properties ?be ''hstore'' ?both (None, None, None) = Inr (s, ov, n)"
    and ov: "ov = None"
    by (simp add: run_installation)
  have "option_value ?be ''schema'' ?both = Some ''app''"
    and "option_value ?be ''new_version'' ?both = Some ''1.3''"
    by (simp_all add: option_value_def last_defel_def installation_def)
  with options_take_precedence [OF both] have "s = Some ''app''" and "n = Some ''1.3''"
    by blast+
  with both ov have first:
    "fill_in_extension_properties ?be ''hstore'' ?both (None, None, None)
       = Inr (Some ''app'', None, Some ''1.3'')"
    by simp
  obtain s' ov' n' where one:
    "fill_in_extension_properties ?be ''hstore'' ?one (None, None, None) = Inr (s', ov', n')"
    and rest: "ov' = None" "n' = Some ''1.4''"
    by (simp add: run_installation)
  have "option_value ?be ''schema'' ?one = Some ''app''"
    by (simp add: option_value_def last_defel_def installation_def)
  with options_take_precedence [OF one] have "s' = Some ''app''"
    by blast
  with one rest have second:
    "fill_in_extension_properties ?be ''hstore'' ?one (None, None, None)
       = Inr (Some ''app'', None, Some ''1.4'')"
    by simp
  from first second show ?thesis by (rule conjI)
qed

section \<open>Repeated entries of a control file\<close>

text \<open>
  Claim C4. Of several entries of a control file with the same recognised key, the
  first in file order is the one kept: when \<^verbatim>\<open>item\<close> is the first entry with its name
  and the options have left the output null, a \<^verbatim>\<open>default_version\<close> item gives the
  resolved version and a \<^verbatim>\<open>schema\<close> item gives the resolved schema, whatever follows
  it in the file.
\<close>

theorem first_control_entry_wins:
  assumes opened: "AllocateFile be (control_filename be extname_arg) = Some file"
    and parsed: "ParseConfigFp be file (control_filename be extname_arg)
                   = Inr (pre @ item # post)"
    and first: "\<forall>i\<in>set pre. name i \<noteq> name item"
    and succ: "fill_in_extension_properties be extname_arg options (s0, o0, n0)
                 = Inr (s, ov, n)"
  shows "(name item = ''default_version''
            \<and> after_options be ''new_version'' options n0 = None \<longrightarrow> n = Some (val item))
       \<and> (name item = ''schema''
            \<and> after_options be ''schema'' options s0 = None \<longrightarrow> s = Some (val item))"
proof (intro conjI impI)
  assume a: "name item = ''default_version''
      \<and> after_options be ''new_version'' options n0 = None"
  then have "after_options be ''new_version'' options n0 = None
      \<or> after_options be ''schema'' options s0 = None" by simp
  from fill_in_Inr_cases(5) [OF succ this] opened parsed a
  have "n = first_value ''default_version'' (pre @ item # post)" by auto
  also have "\<dots> = Some (val item)"
    using first a by (simp add: first_value_split)
  finally show "n = Some (val item)" .
next
  assume a: "name item = ''schema'' \<and> after_options be ''schema'' options s0 = None"
  then have "after_options be ''new_version'' options n0 = None
      \<or> after_options be ''schema'' options s0 = None" by simp
  moreover have "first_value ''schema'' (pre @ item # post) = Some (val item)"
    using first a by (simp add: first_value_split)
  ultimately show "s = Some (val item)"
    using fill_in_Inr_cases(5) [OF succ] opened parsed a by auto
qed

theorem first_control_entry_wins_witness:
  "fill_in_extension_properties
     (installation (Some [\<lparr>name = ''default_version'', val = ''1.0''\<rparr>,
                          \<lparr>name = ''schema'', val = ''public''\<rparr>,
                          \<lparr>name = ''default_version'', val = ''2.0''\<rparr>,
                          \<lparr>name = ''schema'', val = ''app''\<rparr>]) [])
     ''hstore'' [] (None, None, None)
   = Inr (Some ''public'', None, Some ''1.0'')"
proof -
  let ?dv1 = "\<lparr>name = ''default_version'', val = ''1.0''\<rparr>"
  let ?sc1 = "\<lparr>name = ''schema'', val = ''public''\<rparr>"
  let ?tail = "[\<lparr>name = ''default_version'', val = ''2.0''\<rparr>,
                \<lparr>name = ''schema'', val = ''app''\<rparr>]"
  let ?be = "installation (Some (?dv1 # ?sc1 # ?tail)) []"
  have opened: "AllocateFile ?be (control_filename ?be ''hstore'')
      = Some (?dv1 # ?sc1 # ?tail)"
    by (simp add: control_filename_def installation_def MAXPGPATH_def)
  have parsed_v: "ParseConfigFp ?be (?dv1 # ?sc1 # ?tail) (control_filename ?be ''hstore'')
      = Inr ([] @ ?dv1 # (?sc1 # ?tail))"
    by (simp add: installation_def)
  have parsed_s: "ParseConfigFp ?be (?dv1 # ?sc1 # ?tail) (control_filename ?be ''hstore'')
      = Inr ([?dv1] @ ?sc1 # ?tail)"
    by (simp add: installation_def)
  have first_v: "\<forall>i\<in>set []. name i \<noteq> name ?dv1" by simp
  have first_s: "\<forall>i\<in>set [?dv1]. name i \<noteq> name ?sc1" by simp
  obtain s ov n where succ:
    "fill_in_extension_properties ?be ''hstore'' [] (None, None, None) = Inr (s, ov, n)"
    and ov: "ov = None"
    by (simp add: run_installation)
  have unset: "after_options ?be ''new_version'' [] None = None"
    "after_options ?be ''schema'' [] None = None"
    by (simp_all add: after_options_def option_value_def last_defel_def)
  from first_control_entry_wins [OF opened parsed_v first_v succ] unset
  have "n = Some ''1.0''" by simp
  moreover from first_control_entry_wins [OF opened parsed_s first_s succ] unset
  have "s = Some ''public''" by simp
  ultimately show ?thesis using succ ov by simp
qed

section \<open>The default creation schema\<close>

text \<open>
  Claim C5. When neither the options nor the (readable) control file give a schema,
  the call fails with "no schema has been selected to create in" exactly when the
  search path is empty or its first entry has no namespace name, with the same error
  report in both cases; and it fails with no other error.
\<close>

theorem no_schema_selected_cases:
  assumes opened: "AllocateFile be (control_filename be extname_arg) = Some file"
    and parsed: "ParseConfigFp be file (control_filename be extname_arg) = Inr items"
    and undeclared: "\<forall>i\<in>set items. name i \<noteq> ''schema''"
    and omitted: "option_value be ''schema'' options = None"
  shows "(fill_in_extension_properties be extname_arg options (None, o0, n0)
            = Inl (Ereport ERRCODE_UNDEFINED_SCHEMA
                     ''no schema has been selected to create in'')
          \<longleftrightarrow> (fetch_search_path be False = []
                \<or> (\<exists>oid rest. fetch_search_path be False = oid # rest
                      \<and> get_namespace_name be oid = None)))
       \<and> (\<forall>e. fill_in_extension_properties be extname_arg options (None, o0, n0) = Inl e
             \<longrightarrow> e = Ereport ERRCODE_UNDEFINED_SCHEMA
                       ''no schema has been selected to create in'')"
proof -
  note shape = fill_in_no_schema_anywhere [OF opened parsed undeclared omitted, of o0 n0]
  show ?thesis
  proof (cases "default_creation_namespace be")
    case (Inl e)
    with shape default_creation_namespace_Inl [of be e] show ?thesis by auto
  next
    case (Inr nspname)
    with shape default_creation_namespace_Inr [of be nspname] show ?thesis by auto
  qed
qed

theorem no_schema_selected_cases_witness:
  "fill_in_extension_properties
     (installation (Some [\<lparr>name = ''default_version'', val = ''1.4''\<rparr>]) [])
     ''hstore'' [] (None, None, None)
     = Inl (Ereport ERRCODE_UNDEFINED_SCHEMA ''no schema has been selected to create in'')
   \<and> fill_in_extension_properties
     (installation (Some [\<lparr>name = ''default_version'', val = ''1.4''\<rparr>]) [16385, 2200])
     ''hstore'' [] (None, None, None)
     = Inl (Ereport ERRCODE_UNDEFINED_SCHEMA ''no schema has been selected to create in'')"
proof -
  let ?items = "[\<lparr>name = ''default_version'', val = ''1.4''\<rparr>]"
  have opened: "AllocateFile (installation (Some ?items) sp)
      (control_filename (installation (Some ?items) sp) ''hstore'') = Some ?items" for sp
    by (simp add: control_filename_def installation_def MAXPGPATH_def)
  have parsed: "ParseConfigFp (installation (Some ?items) sp) ?items
      (control_filename (installation (Some ?items) sp) ''hstore'') = Inr ?items" for sp
    by (simp add: installation_def)
  have undeclared: "\<forall>i\<in>set ?items. name i \<noteq> ''schema''" by simp
  have omitted: "option_value (installation (Some ?items) sp) ''schema'' [] = None" for sp
    by (simp add: option_value_def last_defel_def)
  have empty: "fetch_search_path (installation (Some ?items) []) False = []"
    by (simp add: installation_def)
  have dropped: "\<exists>oid rest.
      fetch_search_path (installation (Some ?items) [16385, 2200]) False = oid # rest
      \<and> get_namespace_name (installation (Some ?items) [16385, 2200]) oid = None"
    by (simp add: installation_def)
  from no_schema_selected_cases [OF opened parsed undeclared omitted, of "[]" None None] empty
  have "fill_in_extension_properties (installation (Some ?items) []) ''hstore'' []
      (None, None, None)
     = Inl (Ereport ERRCODE_UNDEFINED_SCHEMA ''no schema has been selected to create in'')"
    by blast
  moreover
  from no_schema_selected_cases [OF opened parsed undeclared omitted,
      of "[16385, 2200]" None None] dropped
  have "fill_in_extension_properties (installation (Some ?items) [16385, 2200]) ''hstore'' []
      (None, None, None)
     = Inl (Ereport ERRCODE_UNDEFINED_SCHEMA ''no schema has been selected to create in'')"
    by blast
  ultimately show ?thesis by (rule conjI)
qed

text \<open>
  Claim C6. When neither the options nor the (readable) control file give a schema and
  the first entry of the search path names a schema, the resolved schema is that name:
  the entries after the first are not looked at.
\<close>

theorem first_search_path_entry:
  assumes opened: "AllocateFile be (control_filename be extname_arg) = Some file"
    and parsed: "ParseConfigFp be file (control_filename be extname_arg) = Inr items"
    and undeclared: "\<forall>i\<in>set items. name i \<noteq> ''schema''"
    and omitted: "option_value be ''schema'' options = None"
    and path: "fetch_search_path be False = oid # rest"
    and valid: "get_namespace_name be oid = Some nspname"
  shows "fill_in_extension_properties be extname_arg options (None, o0, n0) =
     Inr (Some nspname, after_options be ''old_version'' options o0,
          case after_options be ''new_version'' options n0 of
            None \<Rightarrow> first_value ''default_version'' items
          | Some x \<Rightarrow> Some x)"
proof -
  have "default_creation_namespace be = Inr nspname"
    using path valid by (simp add: default_creation_namespace_def)
  then show ?thesis
    by (simp add: fill_in_no_schema_anywhere [OF opened parsed undeclared omitted])
qed

theorem first_search_path_entry_witness:
  "fill_in_extension_properties
     (installation (Some [\<lparr>name = ''default_version'', val = ''1.4''\<rparr>]) [2200, 16384])
     ''hstore'' [] (None, None, None)
   = Inr (Some ''public'', None, Some ''1.4'')"
proof -
  let ?items = "[\<lparr>name = ''default_version'', val = ''1.4''\<rparr>]"
  let ?be = "installation (Some ?items) [2200, 16384]"
  have opened: "AllocateFile ?be (control_filename ?be ''hstore'') = Some ?items"
    by (simp add: control_filename_def installation_def MAXPGPATH_def)
  have parsed: "ParseConfigFp ?be ?items (control_filename ?be ''hstore'') = Inr ?items"
    by (simp add: installation_def)
  have undeclared: "\<forall>i\<in>set ?items. name i \<noteq> ''schema''" by simp
  have omitted: "option_value ?be ''schema'' [] = None"
    by (simp add: option_value_def last_defel_def)
  have path: "fetch_search_path ?be False = 2200 # [16384]"
    by (simp add: installation_def)
  have valid: "get_namespace_name ?be 2200 = Some ''public''"
    by (simp add: installation_def)
  from first_search_path_entry [OF opened parsed undeclared omitted path valid, of None None]
  show ?thesis
    by (simp add: after_options_def option_value_def last_defel_def first_value_def)
qed

section \<open>The installed version\<close>

text \<open>
  Claim C7. \<^verbatim>\<open>get_extension_current_version\<close> on an extension that has no row in the
  catalog fails with the undefined-object error "extension ... does not exist"; on an
  extension whose row the scan finds, it returns the version string stored in that row,
  unchanged.
\<close>

theorem current_version_lookup:
  "((\<forall>tup\<in>set extRel. extname tup \<noteq> n) \<longrightarrow>
      get_extension_current_version extRel n =
        Inl (Ereport ERRCODE_UNDEFINED_OBJECT
               (''extension '' @ dquote @ n @ dquote @ '' does not exist'')))
   \<and> (\<forall>tup v. systable_getnext extRel n = Some tup \<and> extversion tup = Some v \<longrightarrow>
          get_extension_current_version extRel n = Inr v)"
proof (intro conjI impI allI)
  assume "\<forall>tup\<in>set extRel. extname tup \<noteq> n"
  then have "systable_getnext extRel n = None"
    by (simp add: systable_getnext_def find_None_iff)
  then show "get_extension_current_version extRel n =
      Inl (Ereport ERRCODE_UNDEFINED_OBJECT
             (''extension '' @ dquote @ n @ dquote @ '' does not exist''))"
    by (simp add: get_extension_current_version_def)
next
  fix tup v
  assume "systable_getnext extRel n = Some tup \<and> extversion tup = Some v"
  then show "get_extension_current_version extRel n = Inr v"
    by (simp add: get_extension_current_version_def)
qed

theorem current_version_lookup_witness:
  "get_extension_current_version installed ''ltree'' =
     Inl (Ereport ERRCODE_UNDEFINED_OBJECT
            (''extension '' @ dquote @ ''ltree'' @ dquote @ '' does not exist''))
   \<and> get_extension_current_version installed ''hstore'' = Inr ''1.4''"
proof -
  have absent: "\<forall>tup\<in>set installed. extname tup \<noteq> ''ltree''"
    by (simp add: installed_def)
  have present: "systable_getnext installed ''hstore''
        = Some \<lparr>extname = ''hstore'', extversion = Some ''1.4''\<rparr>
      \<and> extversion \<lparr>extname = ''hstore'', extversion = Some ''1.4''\<rparr> = Some ''1.4''"
    by (simp add: installed_def systable_getnext_def)
  from current_version_lookup [of installed "''ltree''"] absent
  have "get_extension_current_version installed ''ltree'' =
     Inl (Ereport ERRCODE_UNDEFINED_OBJECT
            (''extension '' @ dquote @ ''ltree'' @ dquote @ '' does not exist''))"
    by blast
  moreover from current_version_lookup [of installed "''hstore''"] present
  have "get_extension_current_version installed ''hstore'' = Inr ''1.4''"
    by blast
  ultimately show ?thesis by (rule conjI)
qed

section \<open>What the result depends on\<close>




section \<open>Options that are not read\<close>

text \<open>
  Claim C9. Option entries whose name is none of \<^verbatim>\<open>schema\<close>, \<^verbatim>\<open>old_version\<close>,
  \<^verbatim>\<open>new_version\<close> change nothing: the call on an option list gives the same result,
  error or tuple, as the call on the list without them.
\<close>

theorem unrecognised_options_ignored:
  "fill_in_extension_properties be extname_arg (filter recognised options) outs
     = fill_in_extension_properties be extname_arg options outs"
proof -
  obtain s0 o0 n0 where outs: "outs = (s0, o0, n0)" by (cases outs) auto
  show ?thesis
    unfolding outs fill_in_extension_properties.simps foreach_options_filter_recognised
    by (rule refl)
qed

theorem unrecognised_options_ignored_witness:
  "fill_in_extension_properties
     (installation (Some [\<lparr>name = ''default_version'', val = ''1.4''\<rparr>]) [2200])
     ''hstore''
     [\<lparr>defname = ''cascade'', arg = Some ''true''\<rparr>,
      \<lparr>defname = ''schema'', arg = Some ''app''\<rparr>] (None, None, None)
   = fill_in_extension_properties
     (installation (Some [\<lparr>name = ''default_version'', val = ''1.4''\<rparr>]) [2200])
     ''hstore''
     [\<lparr>defname = ''schema'', arg = Some ''app''\<rparr>] (None, None, None)"
  using unrecognised_options_ignored
    [of "installation (Some [\<lparr>name = ''default_version'', val = ''1.4''\<rparr>]) [2200]"
        "''hstore''"
        "[\<lparr>defname = ''cascade'', arg = Some ''true''\<rparr>,
          \<lparr>defname = ''schema'', arg = Some ''app''\<rparr>]"
        "(None, None, None)"]
  by (simp add: recognised_def)

text \<open>
  Claim C10. When the entry that the loop keeps for a recognised key has a null
  argument, the output is not set from it and the defaulting goes on as for an omitted
  option. The call gives the same result as on the option list without any entry of
  that key. For \<^verbatim>\<open>schema\<close> (passed in null, control file readable) the result has the
  first \<^verbatim>\<open>schema\<close> entry of the control file, and without one the name of the first
  schema of the search path, or its error. For \<^verbatim>\<open>new_version\<close> (passed in null,
  control file readable) the result has the first \<^verbatim>\<open>default_version\<close> entry of the
  control file, null without one. For \<^verbatim>\<open>old_version\<close> a successful call returns the
  value passed in.
\<close>

theorem null_argument_as_omitted:
  assumes key: "k \<in> {''schema'', ''old_version'', ''new_version''}"
    and entry: "last_defel k options = Some d"
    and null: "arg d = None"
  shows "fill_in_extension_properties be extname_arg options outs =
           fill_in_extension_properties be extname_arg
             (filter (\<lambda>e. defname e \<noteq> k) options) outs
     \<and> (k = ''schema''
          \<and> AllocateFile be (control_filename be extname_arg) = Some fp
          \<and> ParseConfigFp be fp (control_filename be extname_arg) = Inr items \<longrightarrow>
        fill_in_extension_properties be extname_arg options (None, o0, n0) =
          (case first_value ''schema'' items of
             None \<Rightarrow>
               (case default_creation_namespace be of
                  Inl e \<Rightarrow> Inl e
                | Inr nspname \<Rightarrow>
                    Inr (Some nspname, after_options be ''old_version'' options o0,
                         case after_options be ''new_version'' options n0 of
                           None \<Rightarrow> first_value ''default_version'' items
                         | Some x \<Rightarrow> Some x))
           | Some v \<Rightarrow>
               Inr (Some v, after_options be ''old_version'' options o0,
                    case after_options be ''new_version'' options n0 of
                      None \<Rightarrow> first_value ''default_version'' items
                    | Some x \<Rightarrow> Some x)))
     \<and> (k = ''new_version''
          \<and> AllocateFile be (control_filename be extname_arg) = Some fp
          \<and> ParseConfigFp be fp (control_filename be extname_arg) = Inr items \<longrightarrow>
        fill_in_extension_properties be extname_arg options (s0, o0, None) =
          (case (case after_options be ''schema'' options s0 of
                   None \<Rightarrow> first_value ''schema'' items
                 | Some x \<Rightarrow> Some x) of
             None \<Rightarrow>
               (case default_creation_namespace be of
                  Inl e \<Rightarrow> Inl e
                | Inr nspname \<Rightarrow>
                    Inr (Some nspname, after_options be ''old_version'' options o0,
                         first_value ''default_version'' items))
           | Some v \<Rightarrow>
               Inr (Some v, after_options be ''old_version'' options o0,
                    first_value ''default_version'' items)))
     \<and> (k = ''old_version'' \<longrightarrow>
          (\<forall>s ov n. fill_in_extension_properties be extname_arg options (s0, o0, n0)
                       = Inr (s, ov, n) \<longrightarrow> ov = o0))"
proof -
  have unset: "after_options be k options out = out" for out
    by (simp add: after_options_def option_value_def entry null)
  have omitted: "fill_in_extension_properties be extname_arg options outs =
           fill_in_extension_properties be extname_arg
             (filter (\<lambda>e. defname e \<noteq> k) options) outs"
  proof -
    obtain a b c where outs: "outs = (a, b, c)" by (cases outs) auto
    have same: "after_options be k' (filter (\<lambda>e. defname e \<noteq> k) options) out
        = after_options be k' options out" for k' out
    proof (cases "k' = k")
      case True
      with unset [of out] show ?thesis by (simp add: after_options_filter)
    next
      case False
      then show ?thesis by (simp add: after_options_filter)
    qed
    show ?thesis
      unfolding outs fill_in_after_options same by (rule refl)
  qed
  have sch: "fill_in_extension_properties be extname_arg options (None, o0, n0) =
          (case first_value ''schema'' items of
             None \<Rightarrow>
               (case default_creation_namespace be of
                  Inl e \<Rightarrow> Inl e
                | Inr nspname \<Rightarrow>
                    Inr (Some nspname, after_options be ''old_version'' options o0,
                         case after_options be ''new_version'' options n0 of
                           None \<Rightarrow> first_value ''default_version'' items
                         | Some x \<Rightarrow> Some x))
           | Some v \<Rightarrow>
               Inr (Some v, after_options be ''old_version'' options o0,
                    case after_options be ''new_version'' options n0 of
                      None \<Rightarrow> first_value ''default_version'' items
                    | Some x \<Rightarrow> Some x))"
    if "k = ''schema''"
      and opened: "AllocateFile be (control_filename be extname_arg) = Some fp"
      and parsed: "ParseConfigFp be fp (control_filename be extname_arg) = Inr items"
  proof -
    have s1: "after_options be ''schema'' options None = None"
      using unset [of None] that(1) by simp
    show ?thesis
      by (simp add: fill_in_after_options s1 parse_control_opened [OF opened parsed]
            split: option.splits)
  qed
  have ver: "fill_in_extension_properties be extname_arg options (s0, o0, None) =
          (case (case after_options be ''schema'' options s0 of
                   None \<Rightarrow> first_value ''schema'' items
                 | Some x \<Rightarrow> Some x) of
             None \<Rightarrow>
               (case default_creation_namespace be of
                  Inl e \<Rightarrow> Inl e
                | Inr nspname \<Rightarrow>
                    Inr (Some nspname, after_options be ''old_version'' options o0,
                         first_value ''default_version'' items))
           | Some v \<Rightarrow>
               Inr (Some v, after_options be ''old_version'' options o0,
                    first_value ''default_version'' items))"
    if "k = ''new_version''"
      and opened: "AllocateFile be (control_filename be extname_arg) = Some fp"
      and parsed: "ParseConfigFp be fp (control_filename be extname_arg) = Inr items"
  proof -
    have n1: "after_options be ''new_version'' options None = None"
      using unset [of None] that(1) by simp
    show ?thesis
      by (simp add: fill_in_after_options n1 parse_control_opened [OF opened parsed]
            split: option.splits)
  qed
  have old: "ov = o0"
    if "k = ''old_version''"
      and "fill_in_extension_properties be extname_arg options (s0, o0, n0) = Inr (s, ov, n)"
    for s ov n
    using fill_in_Inr_cases(1) [OF that(2)] unset [of o0] that(1) by simp
  from omitted sch ver old show ?thesis by blast
qed

theorem null_argument_as_omitted_witness:
  "fill_in_extension_properties
     (installation (Some [\<lparr>name = ''default_version'', val = ''1.4''\<rparr>,
                          \<lparr>name = ''schema'', val = ''public''\<rparr>]) [16384])
     ''hstore''
     [\<lparr>defname = ''schema'', arg = None\<rparr>,
      \<lparr>defname = ''new_version'', arg = Some ''1.3''\<rparr>] (None, None, None)
   = Inr (Some ''public'', None, Some ''1.3'')
   \<and> fill_in_extension_properties
     (installation (Some [\<lparr>name = ''default_version'', val = ''1.4''\<rparr>]) [16384])
     ''hstore''
     [\<lparr>defname = ''new_version'', arg = None\<rparr>] (None, None, None)
   = Inr (Some ''app'', None, Some ''1.4'')"
proof -
  let ?full = "[\<lparr>name = ''default_version'', val = ''1.4''\<rparr>,
                \<lparr>name = ''schema'', val = ''public''\<rparr>]"
  let ?plain = "[\<lparr>name = ''default_version'', val = ''1.4''\<rparr>]"
  let ?opts = "[\<lparr>defname = ''schema'', arg = None :: string option\<rparr>,
                \<lparr>defname = ''new_version'', arg = Some ''1.3''\<rparr>]"
  let ?nover = "[\<lparr>defname = ''new_version'', arg = None :: string option\<rparr>]"
  have key: "''schema'' \<in> {''schema'', ''old_version'', ''new_version''}" by simp
  have entry: "last_defel ''schema'' ?opts = Some \<lparr>defname = ''schema'', arg = None\<rparr>"
    by (simp add: last_defel_def)
  have null: "arg \<lparr>defname = ''schema'', arg = None :: string option\<rparr> = None" by simp
  have opened: "AllocateFile (installation (Some ?full) [16384])
      (control_filename (installation (Some ?full) [16384]) ''hstore'') = Some ?full"
    by (simp add: control_filename_def installation_def MAXPGPATH_def)
  have parsed: "ParseConfigFp (installation (Some ?full) [16384]) ?full
      (control_filename (installation (Some ?full) [16384]) ''hstore'') = Inr ?full"
    by (simp add: installation_def)
  have vals: "first_value ''schema'' ?full = Some ''public''"
    "after_options (installation (Some ?full) [16384]) ''old_version'' ?opts None = None"
    "after_options (installation (Some ?full) [16384]) ''new_version'' ?opts None
       = Some ''1.3''"
    by (simp_all add: first_value_def after_options_def option_value_def last_defel_def
          installation_def)
  note at_schema = null_argument_as_omitted [OF key entry null,
      where be = "installation (Some ?full) [16384]" and extname_arg = "''hstore''"
        and fp = ?full and items = ?full and ?o0.0 = None and ?n0.0 = None]
  have first: "fill_in_extension_properties (installation (Some ?full) [16384]) ''hstore''
      ?opts (None, None, None) = Inr (Some ''public'', None, Some ''1.3'')"
    using mp [OF conjunct1 [OF conjunct2 [OF at_schema]],
        OF conjI [OF refl conjI [OF opened parsed]]]
    by (simp add: vals)
  have key': "''new_version'' \<in> {''schema'', ''old_version'', ''new_version''}" by simp
  have entry': "last_defel ''new_version'' ?nover
      = Some \<lparr>defname = ''new_version'', arg = None\<rparr>"
    by (simp add: last_defel_def)
  have null': "arg \<lparr>defname = ''new_version'', arg = None :: string option\<rparr> = None"
    by simp
  have opened': "AllocateFile (installation (Some ?plain) [16384])
      (control_filename (installation (Some ?plain) [16384]) ''hstore'') = Some ?plain"
    by (simp add: control_filename_def installation_def MAXPGPATH_def)
  have parsed': "ParseConfigFp (installation (Some ?plain) [16384]) ?plain
      (control_filename (installation (Some ?plain) [16384]) ''hstore'') = Inr ?plain"
    by (simp add: installation_def)
  have vals': "first_value ''schema'' ?plain = None"
    "first_value ''default_version'' ?plain = Some ''1.4''"
    "after_options (installation (Some ?plain) [16384]) ''schema'' ?nover None = None"
    "after_options (installation (Some ?plain) [16384]) ''old_version'' ?nover None = None"
    "default_creation_namespace (installation (Some ?plain) [16384]) = Inr ''app''"
    by (simp_all add: first_value_def after_options_def option_value_def last_defel_def
          installation_def default_creation_namespace_def)
  note at_version = null_argument_as_omitted [OF key' entry' null',
      where be = "installation (Some ?plain) [16384]" and extname_arg = "''hstore''"
        and fp = ?plain and items = ?plain and ?s0.0 = None and ?o0.0 = None]
  have second: "fill_in_extension_properties (installation (Some ?plain) [16384]) ''hstore''
      ?nover (None, None, None) = Inr (Some ''app'', None, Some ''1.4'')"
    using mp [OF conjunct1 [OF conjunct2 [OF conjunct2 [OF at_version]]],
        OF conjI [OF refl conjI [OF opened' parsed']]]
    by (simp add: vals')
  from first second show ?thesis by (rule conjI)
qed

end
